theory Spec2Isabelle
  imports Main
begin

section \<open>The HTTP front end of the coder (aider/server.py)\<close>

text \<open>
  The module binds two routes to one long-lived coder object: \<^verbatim>\<open>POST /chat\<close> hands a
  message to the coder and returns its answer, streamed or whole, and \<^verbatim>\<open>GET /file\<close>
  serves a file of the coder's repository. The development embeds the module's functions
  (\<^verbatim>\<open>process_generator\<close>, \<^verbatim>\<open>chat\<close>, \<^verbatim>\<open>get_file\<close>, \<^verbatim>\<open>create_app\<close>, \<^verbatim>\<open>start_server\<close>) together
  with the three declared request and response shapes. What the module imports is
  either modelled after the library's own code (\<^verbatim>\<open>posixpath.join\<close>, \<^verbatim>\<open>posixpath.normpath\<close>,
  \<^verbatim>\<open>str.startswith\<close>, \<^verbatim>\<open>str.split\<close>) or taken as a parameter (the coder's methods, \<^verbatim>\<open>str(e)\<close>,
  \<^verbatim>\<open>traceback.format_exc()\<close>, \<^verbatim>\<open>mimetypes.guess_type\<close>, the field validators of pydantic).
\<close>

subsection \<open>Strings and POSIX paths\<close>

type_synonym bytes = string

text \<open>\<^verbatim>\<open>s.startswith(p)\<close> and \<^verbatim>\<open>s.endswith(p)\<close> of Python's \<^verbatim>\<open>str\<close>.\<close>

definition startswith :: "string \<Rightarrow> string \<Rightarrow> bool" where
  "startswith s p = (take (length p) s = p)"

definition endswith :: "string \<Rightarrow> string \<Rightarrow> bool" where
  "endswith s p = (length p \<le> length s \<and> drop (length s - length p) s = p)"

text \<open>
  \<^verbatim>\<open>path.split('/')\<close>: the pieces between the separators, empty pieces kept;
  the empty string splits into one empty piece.
\<close>

fun split_sep :: "string \<Rightarrow> string list" where
  "split_sep [] = [[]]"
| "split_sep (c # cs) =
     (if c = CHR ''/'' then [] # split_sep cs
      else (case split_sep cs of
              [] \<Rightarrow> [[c]]
            | seg # segs \<Rightarrow> (c # seg) # segs))"

text \<open>\<^verbatim>\<open>'/'.join(comps)\<close>.\<close>

fun sep_join :: "string list \<Rightarrow> string" where
  "sep_join [] = []"
| "sep_join [seg] = seg"
| "sep_join (seg # comps) = seg @ ''/'' @ sep_join comps"

text \<open>
  \<^verbatim>\<open>os.path.join(a, b)\<close> on a POSIX system, for the two arguments the module passes:
  \<^verbatim>\<open>
  path = a
  if b.startswith(sep):
      path = b
  elif not path or path.endswith(sep):
      path += b
  else:
      path += sep + b
  return path
  \<close>
\<close>

definition join :: "string \<Rightarrow> string \<Rightarrow> string" where
  "join a b =
     (if startswith b ''/'' then b
      else if a = [] \<or> endswith a ''/'' then a @ b
      else a @ ''/'' @ b)"

text \<open>
  \<^verbatim>\<open>os.path.normpath(path)\<close> on a POSIX system:
  \<^verbatim>\<open>
  if path == empty:
      return dot
  initial_slashes = path.startswith(sep)
  if (initial_slashes and
      path.startswith(sep*2) and not path.startswith(sep*3)):
      initial_slashes = 2
  comps = path.split(sep)
  new_comps = []
  for comp in comps:
      if comp in (empty, dot):
          continue
      if (comp != dotdot or (not initial_slashes and not new_comps) or
           (new_comps and new_comps[-1] == dotdot)):
          new_comps.append(comp)
      elif new_comps:
          new_comps.pop()
  comps = new_comps
  path = sep.join(comps)
  if initial_slashes:
      path = sep*initial_slashes + path
  return path or dot
  \<close>
  The loop over \<^verbatim>\<open>comps\<close> is \<open>normpath_loop\<close>, with \<^verbatim>\<open>new_comps\<close> as its accumulator;
  the loop variable \<^verbatim>\<open>comp\<close> is written \<open>seg\<close>, as \<open>comp\<close> is function composition in HOL.
\<close>

fun normpath_loop :: "nat \<Rightarrow> string list \<Rightarrow> string list \<Rightarrow> string list" where
  "normpath_loop initial_slashes [] new_comps = new_comps"
| "normpath_loop initial_slashes (seg # comps) new_comps =
     (if seg = [] \<or> seg = ''.'' then normpath_loop initial_slashes comps new_comps
      else if seg \<noteq> ''..'' \<or> (initial_slashes = 0 \<and> new_comps = [])
                \<or> (new_comps \<noteq> [] \<and> last new_comps = ''..'')
           then normpath_loop initial_slashes comps (new_comps @ [seg])
      else if new_comps \<noteq> [] then normpath_loop initial_slashes comps (butlast new_comps)
      else normpath_loop initial_slashes comps new_comps)"

definition normpath :: "string \<Rightarrow> string" where
  "normpath path =
     (if path = [] then ''.''
      else
        let initial_slashes =
              (if startswith path ''//'' \<and> \<not> startswith path ''///'' then 2
               else if startswith path ''/'' then 1 else (0::nat));
            comps = normpath_loop initial_slashes (split_sep path) [];
            path' = replicate initial_slashes (CHR ''/'') @ sep_join comps
        in if path' = [] then ''.'' else path')"

subsection \<open>Exceptions, generators and responses\<close>

text \<open>
  The exceptions a handler can meet, all of them instances of Python's \<^verbatim>\<open>Exception\<close>
  (what \<^verbatim>\<open>except Exception\<close> catches): FastAPI's \<^verbatim>\<open>HTTPException(status_code, detail)\<close>,
  the \<^verbatim>\<open>RequestValidationError\<close> FastAPI raises for a body that does not fit the declared
  model, the \<^verbatim>\<open>AttributeError\<close> of an attribute read on \<^verbatim>\<open>None\<close>, and any other exception,
  by its message.
\<close>

datatype validation_error = Missing string | Invalid string

datatype exn =
    HTTPException (status_code: nat) (detail: string)
  | RequestValidationError "validation_error list"
  | AttributeError string
  | Exception string

text \<open>
  A synchronous generator object, as \<^verbatim>\<open>coder.run_stream(message)\<close> returns it: one
  traversal produces \<open>chunks\<close> in order and then either stops (\<open>None\<close>) or raises.
\<close>

datatype generator = Generator (chunks: "string list") (raised: "exn option")

text \<open>
  The asynchronous generator \<^verbatim>\<open>process_generator\<close> makes of it: a trace of the chunks it
  yields and of the points where it awaits \<^verbatim>\<open>asyncio.sleep(0)\<close>, and how the trace ends.
\<close>

datatype event = Yield string | Sleep0

datatype async_generator = AsyncGenerator (events: "event list") (araised: "exn option")

text \<open>
  \<^verbatim>\<open>
  async def process_generator(generator):
      for chunk in generator:
          yield chunk
          await asyncio.sleep(0)
  \<close>
\<close>

fun process_generator_loop :: "string list \<Rightarrow> event list" where
  "process_generator_loop [] = []"
| "process_generator_loop (chunk # rest) = Yield chunk # Sleep0 # process_generator_loop rest"

definition process_generator :: "generator \<Rightarrow> async_generator" where
  "process_generator generator =
     AsyncGenerator (process_generator_loop (chunks generator)) (raised generator)"

text \<open>The chunks a consumer of the asynchronous generator receives, in order.\<close>

fun yielded :: "event list \<Rightarrow> string list" where
  "yielded [] = []"
| "yielded (Yield chunk # evs) = chunk # yielded evs"
| "yielded (Sleep0 # evs) = yielded evs"

text \<open>
  What a handler returns: a \<^verbatim>\<open>StreamingResponse(content, media_type)\<close>, a
  \<^verbatim>\<open>ChatResponse(content)\<close> (\<^verbatim>\<open>class ChatResponse(BaseModel): content: str\<close>) or a
  \<^verbatim>\<open>FileResponse(path)\<close>. A handler that raises gives \<open>Inl\<close> of the exception.
\<close>

datatype response =
    StreamingResponse (body_iterator: async_generator) (media: string)
  | ChatResponse (content: string)
  | FileResponse (path: string)

type_synonym outcome = "exn + response"

text \<open>
  \<^verbatim>\<open>class ChatRequest(BaseModel): message: str; stream: bool = True\<close>. The module also
  declares \<^verbatim>\<open>class FileRequest(BaseModel): file_path: str\<close>, which no route uses:
  \<^verbatim>\<open>get_file\<close> takes \<^verbatim>\<open>file_path\<close> as a query parameter.
\<close>

record ChatRequest =
  message :: string
  stream :: bool

subsection \<open>The coder, the file system and the library\<close>

text \<open>
  The coder is an object of the assistant's own class, used here through
  \<^verbatim>\<open>coder.repo.root\<close>, \<^verbatim>\<open>coder.stream\<close>, \<^verbatim>\<open>coder.pretty\<close>, \<^verbatim>\<open>coder.run\<close> and
  \<^verbatim>\<open>coder.run_stream\<close>. Its attributes are a record: \<open>repo\<close> is \<open>None\<close> when the coder has
  no repository, and \<open>other\<close> stands for every attribute the module never names.
\<close>

record GitRepo =
  root :: string

record 'a Coder =
  repo :: "GitRepo option"
  stream :: bool
  pretty :: bool
  other :: 'a

text \<open>
  The state a request runs in: the file system and the one shared coder. A path, as it
  is handed to the operating system, maps to the bytes of the regular file it refers to,
  and to \<open>None\<close> when it refers to no existing regular file; \<^verbatim>\<open>os.path.isfile\<close> asks for
  exactly that.
\<close>

record 'a world =
  fs :: "string \<rightharpoonup> bytes"
  coder :: "'a Coder"

definition isfile :: "'a world \<Rightarrow> string \<Rightarrow> bool" where
  "isfile w p = (fs w p \<noteq> None)"

text \<open>
  The coder's two methods are parameters: \<^verbatim>\<open>run\<close> returns a text, \<^verbatim>\<open>run_stream\<close> a
  generator of text chunks. Each may raise, and each may change the coder and the files
  (an assistant that edits a repository does both), so a call returns its result
  together with the world it leaves.
\<close>

record 'a Coder_methods =
  run :: "'a world \<Rightarrow> string \<Rightarrow> (exn + string) \<times> 'a world"
  run_stream :: "'a world \<Rightarrow> string \<Rightarrow> (exn + generator) \<times> 'a world"

text \<open>
  Library functions whose result the module only passes on: \<^verbatim>\<open>str(e)\<close>,
  \<^verbatim>\<open>traceback.format_exc()\<close> while \<open>e\<close> is being handled, and \<^verbatim>\<open>mimetypes.guess_type\<close>.
\<close>

record python =
  str :: "exn \<Rightarrow> string"
  format_exc :: "exn \<Rightarrow> string"
  guess_type :: "string \<Rightarrow> string option"

subsection \<open>The handlers\<close>

text \<open>
  Both handlers end in the same clause,
  \<^verbatim>\<open>
  except Exception as e:
      error_detail = f"{str(e)}\n{traceback.format_exc()}"
      raise HTTPException(status_code=500, detail=error_detail)
  \<close>
\<close>

definition error_detail :: "python \<Rightarrow> exn \<Rightarrow> string" where
  "error_detail py e = str py e @ [CHR 0x0A] @ format_exc py e"

text \<open>
  \<^verbatim>\<open>
  async def chat(request: ChatRequest):
      try:
          if request.stream:
              generator = coder.run_stream(request.message)
              return StreamingResponse(process_generator(generator), media_type="text/plain")
          else:
              response = coder.run(with_message=request.message)
              return ChatResponse(content=response)
      except Exception as e: ...
  \<close>
  The generator is traversed by whoever sends the streaming response, after the handler
  has returned: an exception it raises then is outside the \<^verbatim>\<open>try\<close>.
\<close>

definition chat :: "python \<Rightarrow> 'a Coder_methods \<Rightarrow> 'a world \<Rightarrow> ChatRequest \<Rightarrow> outcome \<times> 'a world" where
  "chat py cls w request =
     (if ChatRequest.stream request then
        (case run_stream cls w (message request) of
           (Inr generator, w') \<Rightarrow>
             (Inr (StreamingResponse (process_generator generator) ''text/plain''), w')
         | (Inl e, w') \<Rightarrow> (Inl (HTTPException 500 (error_detail py e)), w'))
      else
        (case run cls w (message request) of
           (Inr response, w') \<Rightarrow> (Inr (ChatResponse response), w')
         | (Inl e, w') \<Rightarrow> (Inl (HTTPException 500 (error_detail py e)), w')))"

text \<open>
  \<^verbatim>\<open>
  async def get_file(file_path: str):
      try:
          repo_root = coder.repo.root
          full_path = os.path.join(repo_root, file_path)
          # Check that the file exists and is inside the repo
          if not os.path.isfile(full_path) or not os.path.normpath(full_path).startswith(
              os.path.normpath(repo_root)
          ):
              raise HTTPException(status_code=404, detail=f"File not found: {file_path}")
          return FileResponse(full_path)
      except Exception as e: ...
  \<close>
  \<open>get_file_try\<close> is the body of the \<^verbatim>\<open>try\<close>. \<^verbatim>\<open>HTTPException\<close> is a subclass of
  \<^verbatim>\<open>Exception\<close>, so the \<^verbatim>\<open>except\<close> clause receives the exception raised inside the \<^verbatim>\<open>try\<close>
  like any other. The handler reads the world and writes nothing.
\<close>

definition NoneType_has_no_root :: string where
  "NoneType_has_no_root =
     [CHR 0x27] @ ''NoneType'' @ [CHR 0x27] @ '' object has no attribute ''
       @ [CHR 0x27] @ ''root'' @ [CHR 0x27]"

definition get_file_try :: "'a world \<Rightarrow> string \<Rightarrow> outcome" where
  "get_file_try w file_path =
     (case repo (coder w) of
        None \<Rightarrow> Inl (AttributeError NoneType_has_no_root)
      | Some r \<Rightarrow>
          let repo_root = root r;
              full_path = join repo_root file_path
          in if \<not> isfile w full_path
                 \<or> \<not> startswith (normpath full_path) (normpath repo_root)
             then Inl (HTTPException 404 (''File not found: '' @ file_path))
             else Inr (FileResponse full_path))"

definition get_file :: "python \<Rightarrow> 'a world \<Rightarrow> string \<Rightarrow> outcome \<times> 'a world" where
  "get_file py w file_path =
     (case get_file_try w file_path of
        Inr resp \<Rightarrow> (Inr resp, w)
      | Inl e \<Rightarrow> (Inl (HTTPException 500 (error_detail py e)), w))"

subsection \<open>What the client receives\<close>

text \<open>
  FastAPI answers a returned response with status 200, an \<^verbatim>\<open>HTTPException\<close> with its
  own status code and its detail, a \<^verbatim>\<open>RequestValidationError\<close> with 422, and anything
  else with 500.
\<close>

fun http_status :: "outcome \<Rightarrow> nat" where
  "http_status (Inr _) = 200"
| "http_status (Inl (HTTPException code _)) = code"
| "http_status (Inl (RequestValidationError _)) = 422"
| "http_status (Inl _) = 500"

datatype json =
    JNull | JBool bool | JNumber int | JString string
  | JArray "json list" | JObject "(string \<times> json) list"

datatype payload = Bytes bytes | JSON json

text \<open>
  The body of a returned response: a streaming response sends the chunks its iterator
  yields, one after the other; a \<^verbatim>\<open>ChatResponse\<close> is serialised as a JSON object with the
  one member \<^verbatim>\<open>content\<close>; a \<^verbatim>\<open>FileResponse\<close> sends the bytes of the file at its path
  (\<open>None\<close>: there is no such file when the response is sent).
\<close>

fun response_body :: "(string \<rightharpoonup> bytes) \<Rightarrow> response \<Rightarrow> payload option" where
  "response_body files (StreamingResponse iterator _) =
     Some (Bytes (concat (yielded (events iterator))))"
| "response_body files (ChatResponse text) = Some (JSON (JObject [(''content'', JString text)]))"
| "response_body files (FileResponse p) = map_option Bytes (files p)"

text \<open>
  The content type: the \<^verbatim>\<open>media_type\<close> given to a streaming response, JSON for a
  model, and for a file \<^verbatim>\<open>guess_type(path)[0] or "text/plain"\<close>.
\<close>

fun media_type :: "python \<Rightarrow> response \<Rightarrow> string" where
  "media_type py (StreamingResponse _ m) = m"
| "media_type py (ChatResponse _) = ''application/json''"
| "media_type py (FileResponse p) =
     (case guess_type py p of Some t \<Rightarrow> t | None \<Rightarrow> ''text/plain'')"

subsection \<open>Routes, application and startup\<close>

text \<open>
  Before \<^verbatim>\<open>chat\<close> runs, FastAPI builds its argument from the JSON object of the request
  body, by the declaration of \<^verbatim>\<open>ChatRequest\<close>: \<^verbatim>\<open>message\<close> has no default, so it is
  required; \<^verbatim>\<open>stream\<close> has the default \<^verbatim>\<open>True\<close>. How pydantic accepts or converts a
  value that is present is left to two parameters.
\<close>

record pydantic =
  validate_str :: "json \<Rightarrow> string option"
  validate_bool :: "json \<Rightarrow> bool option"

definition field_message :: "pydantic \<Rightarrow> (string \<rightharpoonup> json) \<Rightarrow> validation_error + string" where
  "field_message pyd body =
     (case body ''message'' of
        None \<Rightarrow> Inl (Missing ''message'')
      | Some v \<Rightarrow>
          (case validate_str pyd v of None \<Rightarrow> Inl (Invalid ''message'') | Some m \<Rightarrow> Inr m))"

definition field_stream :: "pydantic \<Rightarrow> (string \<rightharpoonup> json) \<Rightarrow> validation_error + bool" where
  "field_stream pyd body =
     (case body ''stream'' of
        None \<Rightarrow> Inr True
      | Some v \<Rightarrow>
          (case validate_bool pyd v of None \<Rightarrow> Inl (Invalid ''stream'') | Some b \<Rightarrow> Inr b))"

definition ChatRequest_validate ::
  "pydantic \<Rightarrow> (string \<rightharpoonup> json) \<Rightarrow> validation_error list + ChatRequest" where
  "ChatRequest_validate pyd body =
     (case (field_message pyd body, field_stream pyd body) of
        (Inr m, Inr b) \<Rightarrow> Inr \<lparr>message = m, stream = b\<rparr>
      | (Inl e1, Inr b) \<Rightarrow> Inl [e1]
      | (Inr m, Inl e2) \<Rightarrow> Inl [e2]
      | (Inl e1, Inl e2) \<Rightarrow> Inl [e1, e2])"

text \<open>
  \<^verbatim>\<open>@app.post("/chat")\<close> and \<^verbatim>\<open>@app.get("/file")\<close>: the handler runs only on an argument
  that was accepted; otherwise the client gets the validation error and neither the
  coder nor the files are touched.
\<close>

datatype request = POST_chat "string \<rightharpoonup> json" | GET_file "string option"

definition chat_route ::
  "python \<Rightarrow> pydantic \<Rightarrow> 'a Coder_methods \<Rightarrow> 'a world \<Rightarrow> (string \<rightharpoonup> json) \<Rightarrow> outcome \<times> 'a world" where
  "chat_route py pyd cls w body =
     (case ChatRequest_validate pyd body of
        Inl errors \<Rightarrow> (Inl (RequestValidationError errors), w)
      | Inr request \<Rightarrow> chat py cls w request)"

definition get_file_route :: "python \<Rightarrow> 'a world \<Rightarrow> string option \<Rightarrow> outcome \<times> 'a world" where
  "get_file_route py w query =
     (case query of
        None \<Rightarrow> (Inl (RequestValidationError [Missing ''file_path'']), w)
      | Some file_path \<Rightarrow> get_file py w file_path)"

text \<open>
  \<^verbatim>\<open>create_app(coder)\<close> returns the application with the two routes. The handlers close
  over the coder object, not over a copy of it, so the application sees the coder as it
  is when a request arrives: it takes the world of that moment.
\<close>

fun create_app ::
  "python \<Rightarrow> pydantic \<Rightarrow> 'a Coder_methods \<Rightarrow> 'a world \<Rightarrow> request \<Rightarrow> outcome \<times> 'a world" where
  "create_app py pyd cls w (POST_chat body) = chat_route py pyd cls w body"
| "create_app py pyd cls w (GET_file query) = get_file_route py w query"

text \<open>
  \<^verbatim>\<open>uvicorn.run(app, host=host, port=port)\<close> serves the requests that arrive, here one
  after the other (neither handler awaits anything, so a handler's body is not
  interleaved with another's).
\<close>

fun serve :: "('w \<Rightarrow> 'r \<Rightarrow> 'o \<times> 'w) \<Rightarrow> 'w \<Rightarrow> 'r list \<Rightarrow> 'o list \<times> 'w" where
  "serve app w [] = ([], w)"
| "serve app w (r # rs) =
     (case app w r of
        (out, w') \<Rightarrow> (case serve app w' rs of (outs, w'') \<Rightarrow> (out # outs, w'')))"

text \<open>
  \<^verbatim>\<open>
  def start_server(argv, host="127.0.0.1", port=8000):
      coder = cli_main(argv=argv, return_coder=True)
      app = create_app(coder)
      # Required to force the coder to return text from run and run_stream
      coder.stream = True
      coder.pretty = False
      uvicorn.run(app, host=host, port=port)
  \<close>
  \<^verbatim>\<open>cli_main\<close> is a parameter: it gives the world with the coder it has built.
  \<open>requests\<close> is what arrives at \<^verbatim>\<open>host:port\<close> while the server runs.
\<close>

definition start_server ::
  "(string list \<Rightarrow> 'a world) \<Rightarrow> python \<Rightarrow> pydantic \<Rightarrow> 'a Coder_methods \<Rightarrow> string list
     \<Rightarrow> request list \<Rightarrow> outcome list \<times> 'a world" where
  "start_server cli_main py pyd cls argv requests =
     (let w = cli_main argv;
          app = create_app py pyd cls;
          w = w\<lparr>coder := (coder w)\<lparr>Coder.stream := True, pretty := False\<rparr>\<rparr>
      in serve app w requests)"

subsection \<open>Containment by path segments\<close>

text \<open>
  A path is a true descendant of a root when, both normalized, the path is the root
  followed by a separator and at least one more segment: segments are compared, not
  raw characters. (A root that already ends in a separator is \<^verbatim>\<open>/\<close> or \<^verbatim>\<open>//\<close>.)
\<close>

definition true_descendant :: "string \<Rightarrow> string \<Rightarrow> bool" where
  "true_descendant repo_root full_path =
     (let r = normpath repo_root; n = normpath full_path
      in n \<noteq> r \<and> startswith n (if endswith r ''/'' then r else r @ ''/''))"

subsection \<open>Concrete coders and worlds\<close>

text \<open>
  A repository at \<^verbatim>\<open>/repo\<close> with one file; a repository at \<^verbatim>\<open>/a/b\<close> beside a directory
  \<^verbatim>\<open>/a/b-evil\<close> whose file \<^verbatim>\<open>x\<close> the operating system finds under either spelling of
  its path; a coder that answers with an echo and keeps the messages it was given; a
  coder whose calls raise.
\<close>

definition repo_world :: "string list world" where
  "repo_world =
     \<lparr>fs = [''/repo/notes/a.txt'' \<mapsto> ''hello''],
      coder = \<lparr>repo = Some \<lparr>root = ''/repo''\<rparr>, stream = True, pretty = False, other = []\<rparr>\<rparr>"

definition sibling_world :: "string list world" where
  "sibling_world =
     \<lparr>fs = [''/a/b-evil/x'' \<mapsto> ''secret'', ''/a/b/../b-evil/x'' \<mapsto> ''secret''],
      coder = \<lparr>repo = Some \<lparr>root = ''/a/b''\<rparr>, stream = True, pretty = False, other = []\<rparr>\<rparr>"

definition example_cli_main :: "string list \<Rightarrow> string list world" where
  "example_cli_main argv =
     \<lparr>fs = [''/repo/notes/a.txt'' \<mapsto> ''hello''],
      coder = \<lparr>repo = Some \<lparr>root = ''/repo''\<rparr>, stream = False, pretty = True, other = []\<rparr>\<rparr>"

text \<open>
  A Python runtime for the concrete runs. \<^verbatim>\<open>str\<close> of an \<^verbatim>\<open>HTTPException\<close> is what its
  \<^verbatim>\<open>__str__\<close> returns, \<^verbatim>\<open>f"{self.status_code}: {self.detail}"\<close>, with the status code in
  decimal; \<^verbatim>\<open>str\<close> of an exception made from one message is the message.
\<close>

fun decimal :: "nat \<Rightarrow> string" where
  "decimal n =
     (if n < 10 then [''0123456789'' ! n]
      else decimal (n div 10) @ [''0123456789'' ! (n mod 10)])"

declare decimal.simps [simp del]

definition example_python :: python where
  "example_python =
     \<lparr>str = (\<lambda>e. case e of
                   HTTPException code d \<Rightarrow> decimal code @ '': '' @ d
                 | RequestValidationError errors \<Rightarrow> ''validation error''
                 | AttributeError m \<Rightarrow> m
                 | Exception m \<Rightarrow> m),
      format_exc = (\<lambda>e. ''Traceback (most recent call last): ...''),
      guess_type = (\<lambda>p. if endswith p ''.txt'' then Some ''text/plain'' else None)\<rparr>"

definition example_pydantic :: pydantic where
  "example_pydantic =
     \<lparr>validate_str = (\<lambda>v. case v of JString s \<Rightarrow> Some s | _ \<Rightarrow> None),
      validate_bool = (\<lambda>v. case v of JBool b \<Rightarrow> Some b | _ \<Rightarrow> None)\<rparr>"

definition history_coder :: "string list Coder_methods" where
  "history_coder =
     \<lparr>run = (\<lambda>w m. (Inr (''echo '' @ m), w\<lparr>coder := (coder w)\<lparr>other := other (coder w) @ [m]\<rparr>\<rparr>)),
      run_stream = (\<lambda>w m. (Inr (Generator [''echo'', '' '', m] None),
                             w\<lparr>coder := (coder w)\<lparr>other := other (coder w) @ [m]\<rparr>\<rparr>))\<rparr>"

definition failing_coder :: "string list Coder_methods" where
  "failing_coder =
     \<lparr>run = (\<lambda>w m. (Inl (Exception ''boom''), w)),
      run_stream = (\<lambda>w m. (Inl (Exception ''boom''), w))\<rparr>"

text \<open>
  A coder whose \<^verbatim>\<open>run_stream\<close> is a generator function: the call returns a generator
  without running any of the body, and the body raises when the first chunk is asked
  for. Its \<^verbatim>\<open>run\<close> raises the same exception.
\<close>

definition lazy_failing_coder :: "string list Coder_methods" where
  "lazy_failing_coder =
     \<lparr>run = (\<lambda>w m. (Inl (Exception ''boom''), w)),
      run_stream = (\<lambda>w m. (Inr (Generator [] (Some (Exception ''boom''))), w))\<rparr>"

section \<open>Properties\<close>

subsection \<open>Basic facts\<close>

lemma startswith_append: "startswith (p @ s) p"
  by (simp add: startswith_def)

lemma startswith_trans: "startswith s q \<Longrightarrow> startswith q p \<Longrightarrow> startswith s p"
  unfolding startswith_def
  by (metis append_eq_conv_conj append.assoc append_take_drop_id)

lemma true_descendant_startswith:
  "true_descendant r f \<Longrightarrow> startswith (normpath f) (normpath r)"
  unfolding true_descendant_def Let_def
  by (auto split: if_splits intro: startswith_trans startswith_append)

lemma yielded_process_generator_loop: "yielded (process_generator_loop cs) = cs"
  by (induction cs) simp_all

lemma get_file_world: "snd (get_file py w file_path) = w"
  by (simp add: get_file_def split: sum.splits)

lemma chat_world:
  "snd (chat py cls w request) =
     (if ChatRequest.stream request then snd (run_stream cls w (message request))
      else snd (run cls w (message request)))"
  by (simp add: chat_def split: prod.splits sum.splits)

text \<open>Whatever \<^verbatim>\<open>get_file\<close> is asked, the status it answers with is 200 or 500.\<close>

lemma get_file_status:
  "http_status (fst (get_file py w file_path)) = 200
   \<or> http_status (fst (get_file py w file_path)) = 500"
  by (simp add: get_file_def split: sum.splits)

text \<open>
  A generator that raises while it is traversed does so after \<^verbatim>\<open>chat\<close> has returned its
  streaming response: the handler's outcome is the response, with status 200.
\<close>

lemma chat_stream_generator_raises:
  "fst (run_stream cls w m) = Inr (Generator cs (Some e)) \<Longrightarrow>
     fst (chat py cls w \<lparr>message = m, stream = True\<rparr>)
       = Inr (StreamingResponse (AsyncGenerator (process_generator_loop cs) (Some e)) ''text/plain'')"
  by (cases "run_stream cls w m") (simp add: chat_def process_generator_def)

text \<open>A property that every handled request keeps is kept by the whole run of the server.\<close>

lemma serve_invariant:
  "(\<And>w r. P w \<Longrightarrow> P (snd (app w r))) \<Longrightarrow> P w \<Longrightarrow> P (snd (serve app w rs))"
proof (induction rs arbitrary: w)
  case Nil
  then show ?case by simp
next
  case (Cons r rs)
  have "P (snd (app w r))"
    using Cons.prems by blast
  then have "P (snd (serve app (snd (app w r)) rs))"
    using Cons.IH Cons.prems(1) by blast
  then show ?case
    by (simp add: split_beta)
qed

lemma create_app_flags:
  assumes run_keeps:
      "\<And>w m. Coder.stream (coder (snd (run cls w m))) = Coder.stream (coder w)
             \<and> pretty (coder (snd (run cls w m))) = pretty (coder w)"
    and run_stream_keeps:
      "\<And>w m. Coder.stream (coder (snd (run_stream cls w m))) = Coder.stream (coder w)
             \<and> pretty (coder (snd (run_stream cls w m))) = pretty (coder w)"
  shows "Coder.stream (coder (snd (create_app py pyd cls w r))) = Coder.stream (coder w)
         \<and> pretty (coder (snd (create_app py pyd cls w r))) = pretty (coder w)"
proof (cases r)
  case (POST_chat body)
  then show ?thesis
    using run_keeps run_stream_keeps
    by (simp add: chat_route_def chat_world split: sum.splits)
next
  case (GET_file query)
  then show ?thesis
    by (simp add: get_file_route_def get_file_world split: option.splits)
qed

subsection \<open>Reading files\<close>

text \<open>
  C8. \<^verbatim>\<open>get_file\<close> is read-only and idempotent: handling a request leaves the file system
  and the coder as they were, a second identical request in the world the first one left
  gives the same outcome, and a server that receives the same \<^verbatim>\<open>GET /file\<close> twice in a row
  answers both with that one outcome (so with the same status and the same bytes, read from
  the same files) and ends in the world it started in.
\<close>

theorem get_file_read_only_idempotent:
  "snd (get_file py w file_path) = w
   \<and> get_file py (snd (get_file py w file_path)) file_path = get_file py w file_path
   \<and> serve (create_app py pyd cls) w [GET_file (Some file_path), GET_file (Some file_path)]
       = ([fst (get_file py w file_path), fst (get_file py w file_path)], w)"
  by (simp add: get_file_world get_file_route_def split: prod.splits)
     (metis get_file_world snd_conv fst_conv)

text \<open>
  C6. When the coder has a repository, the path joined to its root is an existing regular
  file, and that path is a true descendant of the root, \<^verbatim>\<open>get_file\<close> returns the file
  response for the joined path: the status is 200, the body is the bytes of the file, and
  the content type is the one guessed from the file's name (\<^verbatim>\<open>text/plain\<close> when there is
  no guess).
\<close>

theorem get_file_serves_descendant:
  "repo (coder w) = Some r \<Longrightarrow> fs w (join (root r) p) = Some data \<Longrightarrow>
   true_descendant (root r) (join (root r) p) \<Longrightarrow>
     fst (get_file py w p) = Inr (FileResponse (join (root r) p))
   \<and> http_status (fst (get_file py w p)) = 200
   \<and> response_body (fs (snd (get_file py w p))) (FileResponse (join (root r) p)) = Some (Bytes data)
   \<and> media_type py (FileResponse (join (root r) p))
       = (case guess_type py (join (root r) p) of Some t \<Rightarrow> t | None \<Rightarrow> ''text/plain'')"
  by (simp add: get_file_def get_file_try_def isfile_def true_descendant_startswith)

theorem get_file_serves_descendant_witness:
  "repo (coder repo_world) = Some \<lparr>root = ''/repo''\<rparr>
   \<and> fs repo_world (join ''/repo'' ''notes/a.txt'') = Some ''hello''
   \<and> true_descendant ''/repo'' (join ''/repo'' ''notes/a.txt'')
   \<and> fst (get_file example_python repo_world ''notes/a.txt'') = Inr (FileResponse ''/repo/notes/a.txt'')
   \<and> http_status (fst (get_file example_python repo_world ''notes/a.txt'')) = 200
   \<and> response_body (fs repo_world) (FileResponse ''/repo/notes/a.txt'') = Some (Bytes ''hello'')
   \<and> media_type example_python (FileResponse ''/repo/notes/a.txt'') = ''text/plain''"
proof -
  have j: "join ''/repo'' ''notes/a.txt'' = ''/repo/notes/a.txt''"
    by (simp add: join_def startswith_def endswith_def)
  have a: "repo (coder repo_world) = Some \<lparr>root = ''/repo''\<rparr>"
    by (simp add: repo_world_def)
  have b: "fs repo_world (join (root \<lparr>root = ''/repo''\<rparr>) ''notes/a.txt'') = Some ''hello''"
    by (simp add: j repo_world_def)
  have c: "true_descendant (root \<lparr>root = ''/repo''\<rparr>) (join (root \<lparr>root = ''/repo''\<rparr>) ''notes/a.txt'')"
    by (simp add: j true_descendant_def normpath_def startswith_def endswith_def)
  have g: "guess_type example_python ''/repo/notes/a.txt'' = Some ''text/plain''"
    by (simp add: example_python_def endswith_def)
  show ?thesis
    using a b c get_file_serves_descendant [OF a b c, of example_python]
    by (simp add: j g get_file_world)
qed

text \<open>
  C9. For an absolute \<^verbatim>\<open>file_path\<close> (one that starts with the separator) the join with the
  repository root is \<^verbatim>\<open>file_path\<close> itself, the root being discarded. So \<^verbatim>\<open>get_file\<close> returns
  a response exactly when \<^verbatim>\<open>file_path\<close> is an existing regular file whose normalized form
  starts with the normalized root, and the response is then the file response for
  \<^verbatim>\<open>file_path\<close>: an absolute path into the repository is accepted.
\<close>

theorem get_file_absolute_path:
  "repo (coder w) = Some r \<Longrightarrow> startswith file_path ''/'' \<Longrightarrow>
     join (root r) file_path = file_path
   \<and> ((\<exists>resp. fst (get_file py w file_path) = Inr resp)
        = (isfile w file_path \<and> startswith (normpath file_path) (normpath (root r))))
   \<and> (isfile w file_path \<and> startswith (normpath file_path) (normpath (root r))
        \<longrightarrow> fst (get_file py w file_path) = Inr (FileResponse file_path))"
  by (auto simp add: get_file_def get_file_try_def join_def)

theorem get_file_absolute_path_witness:
  "repo (coder repo_world) = Some \<lparr>root = ''/repo''\<rparr>
   \<and> startswith ''/repo/notes/a.txt'' ''/''
   \<and> join ''/repo'' ''/repo/notes/a.txt'' = ''/repo/notes/a.txt''
   \<and> isfile repo_world ''/repo/notes/a.txt''
   \<and> startswith (normpath ''/repo/notes/a.txt'') (normpath ''/repo'')
   \<and> fst (get_file example_python repo_world ''/repo/notes/a.txt'')
       = Inr (FileResponse ''/repo/notes/a.txt'')"
proof -
  have a: "repo (coder repo_world) = Some \<lparr>root = ''/repo''\<rparr>"
    by (simp add: repo_world_def)
  have b: "startswith ''/repo/notes/a.txt'' ''/''"
    by (simp add: startswith_def)
  have i: "isfile repo_world ''/repo/notes/a.txt''"
    by (simp add: isfile_def repo_world_def)
  have n: "startswith (normpath ''/repo/notes/a.txt'') (normpath ''/repo'')"
    by (simp add: normpath_def startswith_def)
  show ?thesis
    using a b i n get_file_absolute_path [OF a b, of example_python] by simp
qed

text \<open>
  C1. The specification asks that a path outside the repository root, a sibling of the root whose
  name merely extends the root's name included, is answered with 404 and never with the
  file. With the root \<^verbatim>\<open>/a/b\<close> and the request \<^verbatim>\<open>../b-evil/x\<close> the joined path normalizes
  to \<^verbatim>\<open>/a/b-evil/x\<close>, which is not a descendant of the root but starts with the root's
  characters: the handler returns the file response, status 200, whose body is the
  file's bytes.
\<close>

theorem get_file_serves_sibling_of_root:
  "fst (get_file py sibling_world ''../b-evil/x'') = Inr (FileResponse ''/a/b/../b-evil/x'')
   \<and> normpath ''/a/b/../b-evil/x'' = ''/a/b-evil/x''
   \<and> \<not> true_descendant ''/a/b'' ''/a/b/../b-evil/x''
   \<and> http_status (fst (get_file py sibling_world ''../b-evil/x'')) = 200
   \<and> response_body (fs sibling_world) (FileResponse ''/a/b/../b-evil/x'') = Some (Bytes ''secret'')
   \<and> fst (get_file py sibling_world ''/a/b-evil/x'') = Inr (FileResponse ''/a/b-evil/x'')"
  by (simp add: get_file_def get_file_try_def sibling_world_def join_def normpath_def
        startswith_def endswith_def isfile_def true_descendant_def)

text \<open>
  C2. The specification asks for status 404 and the detail \<^verbatim>\<open>File not found: <file_path>\<close> when a
  check fails. The handler raises exactly that exception, but inside its own \<^verbatim>\<open>try\<close>, whose
  \<^verbatim>\<open>except Exception\<close> clause catches it and raises a 500 in its place: for the missing file
  \<^verbatim>\<open>missing.txt\<close> the outcome is an \<^verbatim>\<open>HTTPException\<close> with status 500 whose detail is the
  text of the 404 exception, a line feed and the trace.
\<close>

theorem get_file_missing_file_is_500:
  "fst (get_file py repo_world ''missing.txt'')
     = Inl (HTTPException 500
             (str py (HTTPException 404 ''File not found: missing.txt'') @ [CHR 0x0A]
                @ format_exc py (HTTPException 404 ''File not found: missing.txt'')))
   \<and> http_status (fst (get_file py repo_world ''missing.txt'')) = 500
   \<and> get_file_try repo_world ''missing.txt''
       = Inl (HTTPException 404 ''File not found: missing.txt'')"
  by (simp add: get_file_def get_file_try_def error_detail_def repo_world_def join_def normpath_def
        startswith_def endswith_def isfile_def)

theorem get_file_missing_file_is_500_witness:
  "fs repo_world (join ''/repo'' ''missing.txt'') = None
   \<and> get_file_try repo_world ''missing.txt'' = Inl (HTTPException 404 ''File not found: missing.txt'')
   \<and> fst (get_file example_python repo_world ''missing.txt'')
       = Inl (HTTPException 500
               (''404: File not found: missing.txt'' @ [CHR 0x0A]
                  @ ''Traceback (most recent call last): ...''))
   \<and> http_status (fst (get_file example_python repo_world ''missing.txt'')) = 500"
proof -
  have m: "fs repo_world (join ''/repo'' ''missing.txt'') = None"
    by (simp add: repo_world_def join_def startswith_def endswith_def)
  have "str example_python (HTTPException 404 ''File not found: missing.txt'')
          = ''404: File not found: missing.txt''"
    and "format_exc example_python (HTTPException 404 ''File not found: missing.txt'')
          = ''Traceback (most recent call last): ...''"
    by (simp_all add: example_python_def decimal.simps)
  then show ?thesis
    using m get_file_missing_file_is_500 [of example_python] by simp
qed

subsection \<open>Chat\<close>

text \<open>
  C3. For a request with \<^verbatim>\<open>stream\<close> true whose \<^verbatim>\<open>coder.run_stream(message)\<close> returns a
  generator, the handler returns a plain-text streaming response over
  \<^verbatim>\<open>process_generator\<close> of that generator; the chunks this iterator yields are the chunks of
  one traversal of the generator, the same ones in the same order, and the body sent is
  their concatenation. If \<^verbatim>\<open>coder.run\<close> returns that concatenation for the same message,
  the request with \<^verbatim>\<open>stream\<close> false gets a \<^verbatim>\<open>ChatResponse\<close> whose content is the streamed
  body.
\<close>

theorem chat_stream_body:
  "fst (run_stream cls w m) = Inr g \<Longrightarrow>
     fst (chat py cls w \<lparr>message = m, stream = True\<rparr>)
       = Inr (StreamingResponse (process_generator g) ''text/plain'')
   \<and> yielded (events (process_generator g)) = chunks g
   \<and> response_body files (StreamingResponse (process_generator g) ''text/plain'')
       = Some (Bytes (concat (chunks g)))
   \<and> (fst (run cls w m) = Inr (concat (chunks g)) \<longrightarrow>
        fst (chat py cls w \<lparr>message = m, stream = False\<rparr>) = Inr (ChatResponse (concat (chunks g))))"
  by (cases "run_stream cls w m"; cases "run cls w m")
     (simp add: chat_def process_generator_def yielded_process_generator_loop)

theorem chat_stream_body_witness:
  "fst (run_stream history_coder repo_world ''hi'') = Inr (Generator [''echo'', '' '', ''hi''] None)
   \<and> fst (chat example_python history_coder repo_world \<lparr>message = ''hi'', stream = True\<rparr>)
       = Inr (StreamingResponse (process_generator (Generator [''echo'', '' '', ''hi''] None)) ''text/plain'')
   \<and> response_body Map.empty
        (StreamingResponse (process_generator (Generator [''echo'', '' '', ''hi''] None)) ''text/plain'')
       = Some (Bytes ''echo hi'')
   \<and> fst (chat example_python history_coder repo_world \<lparr>message = ''hi'', stream = False\<rparr>)
       = Inr (ChatResponse ''echo hi'')"
proof -
  have h: "fst (run_stream history_coder repo_world ''hi'') = Inr (Generator [''echo'', '' '', ''hi''] None)"
    by (simp add: history_coder_def)
  have r: "fst (run history_coder repo_world ''hi'') = Inr ''echo hi''"
    by (simp add: history_coder_def)
  show ?thesis
    using h r chat_stream_body [OF h, of example_python Map.empty] by simp
qed

text \<open>
  C4. For a request with \<^verbatim>\<open>stream\<close> false whose \<^verbatim>\<open>coder.run\<close> returns a text, the handler
  returns a \<^verbatim>\<open>ChatResponse\<close> with exactly that text as its content: status 200, and a body
  whose \<^verbatim>\<open>content\<close> member is the text.
\<close>

theorem chat_blocking_content:
  "fst (run cls w m) = Inr text \<Longrightarrow>
     fst (chat py cls w \<lparr>message = m, stream = False\<rparr>) = Inr (ChatResponse text)
   \<and> http_status (fst (chat py cls w \<lparr>message = m, stream = False\<rparr>)) = 200
   \<and> content (ChatResponse text) = text
   \<and> response_body files (ChatResponse text) = Some (JSON (JObject [(''content'', JString text)]))"
  by (cases "run cls w m") (simp add: chat_def)

theorem chat_blocking_content_witness:
  "fst (run history_coder repo_world ''hi'') = Inr ''echo hi''
   \<and> fst (chat example_python history_coder repo_world \<lparr>message = ''hi'', stream = False\<rparr>)
       = Inr (ChatResponse ''echo hi'')
   \<and> http_status (fst (chat example_python history_coder repo_world \<lparr>message = ''hi'', stream = False\<rparr>))
       = 200"
proof -
  have r: "fst (run history_coder repo_world ''hi'') = Inr ''echo hi''"
    by (simp add: history_coder_def)
  show ?thesis
    using r chat_blocking_content [OF r, of example_python Map.empty] by simp
qed

text \<open>
  C5, as stated: in either mode an exception of the coder gives status 500 with the
  message and the trace, identically for both modes. A coder whose \<^verbatim>\<open>run_stream\<close> is a
  generator function raises only when its chunks are asked for, which is after the
  handler has returned: for the same exception the blocking mode answers 500 and the
  streaming mode answers with the streaming response, status 200.
\<close>

theorem chat_stream_raise_escapes_handler:
  "fst (run lazy_failing_coder repo_world ''hi'') = Inl (Exception ''boom'')
   \<and> http_status (fst (chat example_python lazy_failing_coder repo_world
                         \<lparr>message = ''hi'', stream = False\<rparr>)) = 500
   \<and> fst (run_stream lazy_failing_coder repo_world ''hi'')
       = Inr (Generator [] (Some (Exception ''boom'')))
   \<and> fst (chat example_python lazy_failing_coder repo_world \<lparr>message = ''hi'', stream = True\<rparr>)
       = Inr (StreamingResponse (AsyncGenerator [] (Some (Exception ''boom''))) ''text/plain'')
   \<and> http_status (fst (chat example_python lazy_failing_coder repo_world
                         \<lparr>message = ''hi'', stream = True\<rparr>)) = 200"
  by (simp add: chat_def lazy_failing_coder_def process_generator_def)

text \<open>
  C5, amended. In either mode, if the call the handler makes (\<^verbatim>\<open>coder.run_stream(message)\<close>
  when \<^verbatim>\<open>stream\<close> is true, \<^verbatim>\<open>coder.run(message)\<close> when it is false) itself raises an
  exception, the handler raises an \<^verbatim>\<open>HTTPException\<close> with status 500 whose detail is the
  exception's message text, a line feed and the trace: the same expression for both
  modes. An exception that the generator returned by \<^verbatim>\<open>coder.run_stream\<close> raises while it is
  traversed is not caught: the handler has returned the streaming response, status 200,
  whose body is the chunks produced before the exception.
\<close>

theorem chat_coder_call_raises_500:
  "((if strm then fst (run_stream cls w m) = Inl e else fst (run cls w m) = Inl e) \<longrightarrow>
      fst (chat py cls w \<lparr>message = m, stream = strm\<rparr>)
        = Inl (HTTPException 500 (str py e @ [CHR 0x0A] @ format_exc py e))
    \<and> http_status (fst (chat py cls w \<lparr>message = m, stream = strm\<rparr>)) = 500)
   \<and> (fst (run_stream cls w m) = Inr (Generator cs (Some e)) \<longrightarrow>
      fst (chat py cls w \<lparr>message = m, stream = True\<rparr>)
        = Inr (StreamingResponse (AsyncGenerator (process_generator_loop cs) (Some e)) ''text/plain'')
    \<and> http_status (fst (chat py cls w \<lparr>message = m, stream = True\<rparr>)) = 200
    \<and> response_body files
         (StreamingResponse (AsyncGenerator (process_generator_loop cs) (Some e)) ''text/plain'')
        = Some (Bytes (concat cs)))"
proof (intro conjI impI)
  assume call: "if strm then fst (run_stream cls w m) = Inl e else fst (run cls w m) = Inl e"
  then show "fst (chat py cls w \<lparr>message = m, stream = strm\<rparr>)
        = Inl (HTTPException 500 (str py e @ [CHR 0x0A] @ format_exc py e))"
    by (cases "run_stream cls w m"; cases "run cls w m")
       (auto simp add: chat_def error_detail_def split: if_splits)
  then show "http_status (fst (chat py cls w \<lparr>message = m, stream = strm\<rparr>)) = 500"
    by simp
next
  assume gen: "fst (run_stream cls w m) = Inr (Generator cs (Some e))"
  then show out: "fst (chat py cls w \<lparr>message = m, stream = True\<rparr>)
        = Inr (StreamingResponse (AsyncGenerator (process_generator_loop cs) (Some e)) ''text/plain'')"
    by (rule chat_stream_generator_raises)
  then show "http_status (fst (chat py cls w \<lparr>message = m, stream = True\<rparr>)) = 200"
    by simp
  show "response_body files
         (StreamingResponse (AsyncGenerator (process_generator_loop cs) (Some e)) ''text/plain'')
        = Some (Bytes (concat cs))"
    by (simp add: yielded_process_generator_loop)
qed

theorem chat_coder_call_raises_500_witness:
  "fst (run_stream failing_coder repo_world ''hi'') = Inl (Exception ''boom'')
   \<and> fst (run failing_coder repo_world ''hi'') = Inl (Exception ''boom'')
   \<and> fst (chat example_python failing_coder repo_world \<lparr>message = ''hi'', stream = True\<rparr>)
       = Inl (HTTPException 500 (''boom'' @ [CHR 0x0A] @ ''Traceback (most recent call last): ...''))
   \<and> fst (chat example_python failing_coder repo_world \<lparr>message = ''hi'', stream = False\<rparr>)
       = Inl (HTTPException 500 (''boom'' @ [CHR 0x0A] @ ''Traceback (most recent call last): ...''))
   \<and> http_status (fst (chat example_python failing_coder repo_world \<lparr>message = ''hi'', stream = True\<rparr>))
       = 500
   \<and> http_status (fst (chat example_python failing_coder repo_world \<lparr>message = ''hi'', stream = False\<rparr>))
       = 500
   \<and> fst (run_stream lazy_failing_coder repo_world ''hi'') = Inr (Generator [] (Some (Exception ''boom'')))
   \<and> fst (chat example_python lazy_failing_coder repo_world \<lparr>message = ''hi'', stream = True\<rparr>)
       = Inr (StreamingResponse (AsyncGenerator [] (Some (Exception ''boom''))) ''text/plain'')
   \<and> http_status (fst (chat example_python lazy_failing_coder repo_world
                         \<lparr>message = ''hi'', stream = True\<rparr>)) = 200
   \<and> response_body Map.empty (StreamingResponse (AsyncGenerator [] (Some (Exception ''boom''))) ''text/plain'')
       = Some (Bytes [])"
proof -
  have s: "fst (run_stream failing_coder repo_world ''hi'') = Inl (Exception ''boom'')"
    by (simp add: failing_coder_def)
  have r: "fst (run failing_coder repo_world ''hi'') = Inl (Exception ''boom'')"
    by (simp add: failing_coder_def)
  have g: "fst (run_stream lazy_failing_coder repo_world ''hi'') = Inr (Generator [] (Some (Exception ''boom'')))"
    by (simp add: lazy_failing_coder_def)
  have "str example_python (Exception ''boom'') = ''boom''"
    and "format_exc example_python (Exception ''boom'') = ''Traceback (most recent call last): ...''"
    by (simp_all add: example_python_def)
  then show ?thesis
    using s r g
      chat_coder_call_raises_500 [of True failing_coder repo_world "''hi''" "Exception ''boom''"
        example_python "[]" Map.empty]
      chat_coder_call_raises_500 [of False failing_coder repo_world "''hi''" "Exception ''boom''"
        example_python "[]" Map.empty]
      chat_coder_call_raises_500 [of True lazy_failing_coder repo_world "''hi''" "Exception ''boom''"
        example_python "[]" Map.empty]
    by simp
qed

text \<open>
  C7. A body without the \<^verbatim>\<open>stream\<close> member that is accepted is parsed with \<^verbatim>\<open>stream\<close> true,
  and the route then does what the streaming branch of the handler does: it calls
  \<^verbatim>\<open>coder.run_stream\<close> on the message and wraps the generator. A body without the \<^verbatim>\<open>message\<close>
  member is rejected with a validation error that reports the missing member; the handler
  does not run, and the world is as before.
\<close>

theorem chat_request_defaults:
  "(body ''stream'' = None \<longrightarrow> ChatRequest_validate pyd body = Inr request \<longrightarrow>
      ChatRequest.stream request = True
    \<and> chat_route py pyd cls w body =
        (case run_stream cls w (message request) of
           (Inr generator, w') \<Rightarrow>
             (Inr (StreamingResponse (process_generator generator) ''text/plain''), w')
         | (Inl e, w') \<Rightarrow> (Inl (HTTPException 500 (error_detail py e)), w')))
   \<and> (body ''message'' = None \<longrightarrow>
        (\<exists>errors. ChatRequest_validate pyd body = Inl errors
           \<and> Missing ''message'' \<in> set errors
           \<and> chat_route py pyd cls w body = (Inl (RequestValidationError errors), w)))"
  by (auto simp add: ChatRequest_validate_def field_stream_def field_message_def chat_route_def
        chat_def split: sum.splits option.splits)

theorem chat_request_defaults_witness:
  "[''message'' \<mapsto> JString ''hi''] ''stream'' = None
   \<and> ChatRequest_validate example_pydantic [''message'' \<mapsto> JString ''hi'']
       = Inr \<lparr>message = ''hi'', stream = True\<rparr>
   \<and> fst (chat_route example_python example_pydantic history_coder repo_world
            [''message'' \<mapsto> JString ''hi''])
       = Inr (StreamingResponse (process_generator (Generator [''echo'', '' '', ''hi''] None)) ''text/plain'')
   \<and> [''stream'' \<mapsto> JBool False] ''message'' = None
   \<and> chat_route example_python example_pydantic history_coder repo_world [''stream'' \<mapsto> JBool False]
       = (Inl (RequestValidationError [Missing ''message'']), repo_world)"
proof -
  have v: "ChatRequest_validate example_pydantic [''message'' \<mapsto> JString ''hi'']
             = Inr \<lparr>message = ''hi'', stream = True\<rparr>"
    by (simp add: ChatRequest_validate_def field_message_def field_stream_def example_pydantic_def)
  have e: "ChatRequest_validate example_pydantic [''stream'' \<mapsto> JBool False] = Inl [Missing ''message'']"
    by (simp add: ChatRequest_validate_def field_message_def field_stream_def example_pydantic_def)
  have s: "run_stream history_coder repo_world ''hi''
             = (Inr (Generator [''echo'', '' '', ''hi''] None),
                repo_world\<lparr>coder := (coder repo_world)\<lparr>other := other (coder repo_world) @ [''hi'']\<rparr>\<rparr>)"
    by (simp add: history_coder_def)
  show ?thesis
    using v e
      chat_request_defaults [of "[''message'' \<mapsto> JString ''hi'']" example_pydantic
        "\<lparr>message = ''hi'', stream = True\<rparr>" example_python history_coder repo_world]
      chat_request_defaults [of "[''stream'' \<mapsto> JBool False]" example_pydantic
        "\<lparr>message = ''hi'', stream = True\<rparr>" example_python history_coder repo_world]
    by (simp add: s)
qed

subsection \<open>The coder across requests\<close>

text \<open>
  C10, as stated: after \<^verbatim>\<open>chat\<close> every attribute of the coder is what it was before. The
  handler calls \<^verbatim>\<open>coder.run\<close>, and a coder that records the message it is given is not
  the same afterwards.
\<close>

theorem chat_coder_changed_by_run:
  "coder (snd (chat example_python history_coder repo_world \<lparr>message = ''hi'', stream = False\<rparr>))
     \<noteq> coder repo_world"
  by (simp add: chat_def history_coder_def repo_world_def)

text \<open>
  C10, amended. No handler assigns an attribute of the coder: \<^verbatim>\<open>get_file\<close> leaves the world
  as it is, and after \<^verbatim>\<open>chat\<close> the world is the one that the single call of
  \<^verbatim>\<open>coder.run_stream\<close> or \<^verbatim>\<open>coder.run\<close> left. \<^verbatim>\<open>start_server\<close> assigns \<^verbatim>\<open>stream\<close> and \<^verbatim>\<open>pretty\<close>
  once, on the coder \<^verbatim>\<open>cli_main\<close> built, and serves every request from there; if the
  coder's own two methods keep \<^verbatim>\<open>stream\<close> and \<^verbatim>\<open>pretty\<close>, then after any run of requests
  \<^verbatim>\<open>stream\<close> is true and \<^verbatim>\<open>pretty\<close> is false.
\<close>

theorem handlers_assign_no_coder_attribute:
  "snd (get_file py w file_path) = w
   \<and> snd (chat py cls w request) =
       (if ChatRequest.stream request then snd (run_stream cls w (message request))
        else snd (run cls w (message request)))
   \<and> start_server cli_main py pyd cls argv requests =
       serve (create_app py pyd cls)
         ((cli_main argv)\<lparr>coder := (coder (cli_main argv))\<lparr>Coder.stream := True, pretty := False\<rparr>\<rparr>)
         requests
   \<and> ((\<forall>w m. Coder.stream (coder (snd (run cls w m))) = Coder.stream (coder w)
               \<and> pretty (coder (snd (run cls w m))) = pretty (coder w)
               \<and> Coder.stream (coder (snd (run_stream cls w m))) = Coder.stream (coder w)
               \<and> pretty (coder (snd (run_stream cls w m))) = pretty (coder w))
        \<longrightarrow> Coder.stream (coder (snd (start_server cli_main py pyd cls argv requests))) = True
          \<and> pretty (coder (snd (start_server cli_main py pyd cls argv requests))) = False)"
proof (intro conjI impI)
  show "snd (get_file py w file_path) = w"
    by (rule get_file_world)
  show "snd (chat py cls w request) =
       (if ChatRequest.stream request then snd (run_stream cls w (message request))
        else snd (run cls w (message request)))"
    by (rule chat_world)
  show s: "start_server cli_main py pyd cls argv requests =
       serve (create_app py pyd cls)
         ((cli_main argv)\<lparr>coder := (coder (cli_main argv))\<lparr>Coder.stream := True, pretty := False\<rparr>\<rparr>)
         requests"
    by (simp add: start_server_def Let_def)
  assume keeps: "\<forall>w m. Coder.stream (coder (snd (run cls w m))) = Coder.stream (coder w)
               \<and> pretty (coder (snd (run cls w m))) = pretty (coder w)
               \<and> Coder.stream (coder (snd (run_stream cls w m))) = Coder.stream (coder w)
               \<and> pretty (coder (snd (run_stream cls w m))) = pretty (coder w)"
  let ?P = "\<lambda>w. Coder.stream (coder w) = True \<and> pretty (coder w) = False"
  let ?w0 = "(cli_main argv)\<lparr>coder := (coder (cli_main argv))\<lparr>Coder.stream := True, pretty := False\<rparr>\<rparr>"
  have step: "\<And>w r. ?P w \<Longrightarrow> ?P (snd (create_app py pyd cls w r))"
    using create_app_flags [of cls py pyd] keeps by simp
  have "?P ?w0" by simp
  then have fin: "?P (snd (serve (create_app py pyd cls) ?w0 requests))"
    using step by (rule serve_invariant [where P = ?P, rotated])
  show "Coder.stream (coder (snd (start_server cli_main py pyd cls argv requests))) = True"
    using fin by (simp add: s)
  show "pretty (coder (snd (start_server cli_main py pyd cls argv requests))) = False"
    using fin by (simp add: s)
qed

theorem handlers_assign_no_coder_attribute_witness:
  "(\<forall>w m. Coder.stream (coder (snd (run history_coder w m))) = Coder.stream (coder w)
               \<and> pretty (coder (snd (run history_coder w m))) = pretty (coder w)
               \<and> Coder.stream (coder (snd (run_stream history_coder w m))) = Coder.stream (coder w)
               \<and> pretty (coder (snd (run_stream history_coder w m))) = pretty (coder w))
   \<and> Coder.stream (coder (example_cli_main [])) = False
   \<and> pretty (coder (example_cli_main [])) = True
   \<and> Coder.stream (coder (snd (start_server example_cli_main example_python example_pydantic history_coder []
        [POST_chat [''message'' \<mapsto> JString ''hi''], GET_file (Some ''notes/a.txt'')]))) = True
   \<and> pretty (coder (snd (start_server example_cli_main example_python example_pydantic history_coder []
        [POST_chat [''message'' \<mapsto> JString ''hi''], GET_file (Some ''notes/a.txt'')]))) = False
   \<and> other (coder (snd (start_server example_cli_main example_python example_pydantic history_coder []
        [POST_chat [''message'' \<mapsto> JString ''hi''], GET_file (Some ''notes/a.txt'')]))) = [''hi'']"
proof -
  have k: "\<forall>w m. Coder.stream (coder (snd (run history_coder w m))) = Coder.stream (coder w)
               \<and> pretty (coder (snd (run history_coder w m))) = pretty (coder w)
               \<and> Coder.stream (coder (snd (run_stream history_coder w m))) = Coder.stream (coder w)
               \<and> pretty (coder (snd (run_stream history_coder w m))) = pretty (coder w)"
    by (simp add: history_coder_def)
  have v: "ChatRequest_validate example_pydantic [''message'' \<mapsto> JString ''hi'']
             = Inr \<lparr>message = ''hi'', stream = True\<rparr>"
    by (simp add: ChatRequest_validate_def field_message_def field_stream_def example_pydantic_def)
  have o: "other (coder (snd (start_server example_cli_main example_python example_pydantic history_coder []
        [POST_chat [''message'' \<mapsto> JString ''hi''], GET_file (Some ''notes/a.txt'')]))) = [''hi'']"
    by (simp add: start_server_def Let_def chat_route_def v chat_def history_coder_def
          get_file_route_def get_file_world example_cli_main_def split_beta)
  have c: "Coder.stream (coder (example_cli_main [])) = False \<and> pretty (coder (example_cli_main [])) = True"
    by (simp add: example_cli_main_def)
  show ?thesis
    using k o c
      handlers_assign_no_coder_attribute [of example_python "example_cli_main []" "''notes/a.txt''"
        history_coder "\<lparr>message = ''hi'', stream = True\<rparr>" example_cli_main example_pydantic "[]"
        "[POST_chat [''message'' \<mapsto> JString ''hi''], GET_file (Some ''notes/a.txt'')]"]
    by blast
qed

end
